theory Spec2Isabelle
  imports Main
begin

section \<open>Data model\<close>

text \<open>
  A clip placed on the sequence. The fields are the keyword arguments of the calls
  \<^verbatim>\<open>self.timeline.add_clip_to_timeline(video_ref=, num_frames=, start=, offset=, fps=,
  filename=, custom_attrib=)\<close> in \<^verbatim>\<open>RemoveSilence.cut_clips\<close>: \<open>start\<close> is the
  source in-point, \<open>offset\<close> the placement offset on the sequence, \<open>num_frames\<close> the
  duration. Frame counts are Python integers, hence \<open>int\<close>. A call that passes no
  \<^verbatim>\<open>custom_attrib\<close> is recorded with the empty attribute list.
\<close>

record clip =
  video_ref :: string
  num_frames :: int
  start :: int
  offset :: int
  fps :: string
  filename :: string
  custom_attrib :: "(string \<times> string) list"

text \<open>
  One entry of the loud map as \<^verbatim>\<open>cut_clips\<close> reads it: the keys \<^verbatim>\<open>'offset'\<close> and
  \<^verbatim>\<open>'dur'\<close>. The code takes \<^verbatim>\<open>loud_part['offset']\<close> as the position where the loud
  interval starts inside the asset.
\<close>

record loud_part =
  part_offset :: int
  dur :: int

text \<open>
  The parsed loud-map document: \<^verbatim>\<open>loud_map_json['timebase']\<close> and
  \<^verbatim>\<open>loud_map_json['v']\<close>, a list of tracks of which the code uses the first.
\<close>

record loud_map_json =
  json_timebase :: string
  json_v :: "loud_part list list"

definition is_silent :: "clip \<Rightarrow> bool" where
  "is_silent c = (map_of (custom_attrib c) ''ave_silent'' = Some ''true'')"

section \<open>Splitting one asset clip (lines 123 to 181 of remove\_silence.py)\<close>

text \<open>
  The \<^verbatim>\<open>for loud_part in loud_map\<close> loop together with the block after it that adds the
  last silent part. The three loop variables are threaded as arguments; the result is the
  list of \<^verbatim>\<open>add_clip_to_timeline\<close> calls, in the order in which they are made. The
  equation for the empty list is the code after the loop.
\<close>

fun split_loud_parts ::
  "clip \<Rightarrow> string \<Rightarrow> int \<Rightarrow> int \<Rightarrow> int \<Rightarrow> int \<Rightarrow> int \<Rightarrow> loud_part list \<Rightarrow> clip list" where
  "split_loud_parts base_asset_clip timebase base_clip_duration previous_video_duration
      previous_loud_clip_offset previous_loud_clip_start previous_loud_clip_duration [] =
     (if previous_loud_clip_start + previous_loud_clip_duration < base_clip_duration then
        (let silent_clip_start = previous_loud_clip_start + previous_loud_clip_duration;
             silent_clip_duration = base_clip_duration - silent_clip_start;
             silent_clip_offset = previous_loud_clip_offset + previous_loud_clip_duration
         in [\<lparr>video_ref = video_ref base_asset_clip,
               num_frames = silent_clip_duration,
               start = silent_clip_offset,
               offset = previous_video_duration + silent_clip_start,
               fps = timebase,
               filename = filename base_asset_clip,
               custom_attrib = [(''ave_silent'', ''true'')]\<rparr>])
      else [])"
| "split_loud_parts base_asset_clip timebase base_clip_duration previous_video_duration
      previous_loud_clip_offset previous_loud_clip_start previous_loud_clip_duration
      (loud_part # loud_map) =
     (let loud_clip_start = part_offset loud_part;
          silent_clip_start = previous_loud_clip_start + previous_loud_clip_duration;
          silent_clip_duration = loud_clip_start - silent_clip_start;
          silent_clip_offset = previous_loud_clip_offset + previous_loud_clip_duration;
          loud_clip_offset = silent_clip_offset + silent_clip_duration
      in (if silent_clip_duration > 0 then
            [\<lparr>video_ref = video_ref base_asset_clip,
              num_frames = silent_clip_duration,
              start = silent_clip_offset,
              offset = previous_video_duration + silent_clip_start,
              fps = timebase,
              filename = filename base_asset_clip,
              custom_attrib = [(''ave_silent'', ''true'')]\<rparr>]
          else [])
         @ [\<lparr>video_ref = video_ref base_asset_clip,
              num_frames = dur loud_part,
              start = loud_clip_start,
              offset = previous_video_duration + loud_clip_offset,
              fps = timebase,
              filename = filename base_asset_clip,
              custom_attrib = []\<rparr>]
         @ split_loud_parts base_asset_clip timebase base_clip_duration previous_video_duration
             loud_clip_offset loud_clip_start (dur loud_part) loud_map)"

text \<open>
  The calls made for one asset: the loop variables start at 0 (lines 124 to 126).
\<close>

definition asset_clips :: "clip \<Rightarrow> string \<Rightarrow> int \<Rightarrow> loud_part list \<Rightarrow> clip list" where
  "asset_clips base_asset_clip timebase previous_video_duration loud_map =
     split_loud_parts base_asset_clip timebase (num_frames base_asset_clip)
       previous_video_duration 0 0 0 loud_map"

text \<open>
  The same loop, with every call recorded together with the call site that made it:
  line 140 (the silent part before a loud part), line 153 (the loud part) and line 173
  (the last silent part). It is used only to state where a clip comes from.
\<close>

datatype call_site = Silent_part | Loud_part | Last_silent_part

fun split_loud_parts_sites ::
  "clip \<Rightarrow> string \<Rightarrow> int \<Rightarrow> int \<Rightarrow> int \<Rightarrow> int \<Rightarrow> int \<Rightarrow> loud_part list
     \<Rightarrow> (call_site \<times> clip) list" where
  "split_loud_parts_sites base_asset_clip timebase base_clip_duration previous_video_duration
      previous_loud_clip_offset previous_loud_clip_start previous_loud_clip_duration [] =
     (if previous_loud_clip_start + previous_loud_clip_duration < base_clip_duration then
        (let silent_clip_start = previous_loud_clip_start + previous_loud_clip_duration;
             silent_clip_duration = base_clip_duration - silent_clip_start;
             silent_clip_offset = previous_loud_clip_offset + previous_loud_clip_duration
         in [(Last_silent_part,
              \<lparr>video_ref = video_ref base_asset_clip,
               num_frames = silent_clip_duration,
               start = silent_clip_offset,
               offset = previous_video_duration + silent_clip_start,
               fps = timebase,
               filename = filename base_asset_clip,
               custom_attrib = [(''ave_silent'', ''true'')]\<rparr>)])
      else [])"
| "split_loud_parts_sites base_asset_clip timebase base_clip_duration previous_video_duration
      previous_loud_clip_offset previous_loud_clip_start previous_loud_clip_duration
      (loud_part # loud_map) =
     (let loud_clip_start = part_offset loud_part;
          silent_clip_start = previous_loud_clip_start + previous_loud_clip_duration;
          silent_clip_duration = loud_clip_start - silent_clip_start;
          silent_clip_offset = previous_loud_clip_offset + previous_loud_clip_duration;
          loud_clip_offset = silent_clip_offset + silent_clip_duration
      in (if silent_clip_duration > 0 then
            [(Silent_part,
              \<lparr>video_ref = video_ref base_asset_clip,
               num_frames = silent_clip_duration,
               start = silent_clip_offset,
               offset = previous_video_duration + silent_clip_start,
               fps = timebase,
               filename = filename base_asset_clip,
               custom_attrib = [(''ave_silent'', ''true'')]\<rparr>)]
          else [])
         @ [(Loud_part,
             \<lparr>video_ref = video_ref base_asset_clip,
              num_frames = dur loud_part,
              start = loud_clip_start,
              offset = previous_video_duration + loud_clip_offset,
              fps = timebase,
              filename = filename base_asset_clip,
              custom_attrib = []\<rparr>)]
         @ split_loud_parts_sites base_asset_clip timebase base_clip_duration
             previous_video_duration loud_clip_offset loud_clip_start (dur loud_part) loud_map)"

section \<open>The timeline store\<close>

text \<open>
  Modelled from the spec: the class \<^verbatim>\<open>Timeline\<close> (\<^verbatim>\<open>entities/timeline.py\<close>) is not
  among the sources; only its calls in \<^verbatim>\<open>cut_clips\<close> are. Following sections 3 and 4.1
  of the specification, the store holds the asset references in registration order, the
  ordered sequence of placed clips and the cached total duration.
  \<open>sequence_duration_updates\<close> counts the calls of \<open>update_sequence_duration\<close>; nothing
  reads it, it only makes "how often is the total recomputed" a statement about the state.
\<close>

record timeline_store =
  video_assets_refs :: "string list"
  clips :: "clip list"
  sequence_duration :: int
  sequence_duration_updates :: nat

fun nth_where :: "('a \<Rightarrow> bool) \<Rightarrow> nat \<Rightarrow> 'a list \<Rightarrow> 'a option" where
  "nth_where P i [] = None"
| "nth_where P i (x # xs) =
     (if P x then (case i of 0 \<Rightarrow> Some x | Suc j \<Rightarrow> nth_where P j xs)
      else nth_where P i xs)"

fun remove_nth_where :: "('a \<Rightarrow> bool) \<Rightarrow> nat \<Rightarrow> 'a list \<Rightarrow> 'a list option" where
  "remove_nth_where P i [] = None"
| "remove_nth_where P i (x # xs) =
     (if P x then
        (case i of 0 \<Rightarrow> Some xs
         | Suc j \<Rightarrow> map_option ((#) x) (remove_nth_where P j xs))
      else map_option ((#) x) (remove_nth_where P i xs))"

text \<open>
  Modelled from the spec: \<^verbatim>\<open>getBaseClip\<close>, called in the code as
  \<^verbatim>\<open>get_stored_video_asset(ref, 0)\<close>: the clip number \<open>i\<close> among the clips placed for
  the asset, \<open>None\<close> (the failure \<^verbatim>\<open>NotFound\<close>) when there is none.
\<close>

definition get_stored_video_asset :: "timeline_store \<Rightarrow> string \<Rightarrow> nat \<Rightarrow> clip option" where
  "get_stored_video_asset tml r i = nth_where (\<lambda>c. video_ref c = r) i (clips tml)"

text \<open>
  Modelled from the spec: \<^verbatim>\<open>removeBaseClip\<close>, called as
  \<^verbatim>\<open>remove_stored_video_asset(ref, 0)\<close>: deletes that clip from the sequence, \<open>None\<close>
  (\<^verbatim>\<open>NotFound\<close>) when it is absent.
\<close>

definition remove_stored_video_asset ::
  "timeline_store \<Rightarrow> string \<Rightarrow> nat \<Rightarrow> timeline_store option" where
  "remove_stored_video_asset tml r i =
     map_option (\<lambda>cs. tml\<lparr>clips := cs\<rparr>) (remove_nth_where (\<lambda>c. video_ref c = r) i (clips tml))"

text \<open>
  Modelled from the spec: \<^verbatim>\<open>appendClip\<close>, called as \<^verbatim>\<open>add_clip_to_timeline\<close>: a pure
  insert at the end of the sequence, with no validation.
\<close>

definition add_clip_to_timeline :: "timeline_store \<Rightarrow> clip \<Rightarrow> timeline_store" where
  "add_clip_to_timeline tml c = tml\<lparr>clips := clips tml @ [c]\<rparr>"

text \<open>
  Modelled from the spec: \<^verbatim>\<open>recomputeTotalDuration\<close>, called as
  \<^verbatim>\<open>update_sequence_duration\<close>: the sum of the durations of all current clips becomes
  the cached total.
\<close>

definition update_sequence_duration :: "timeline_store \<Rightarrow> timeline_store" where
  "update_sequence_duration tml =
     tml\<lparr>sequence_duration := sum_list (map num_frames (clips tml)),
        sequence_duration_updates := Suc (sequence_duration_updates tml)\<rparr>"

section \<open>RemoveSilence.cut\_clips\<close>

text \<open>
  The two attributes of the \<^verbatim>\<open>RemoveSilence\<close> object that \<^verbatim>\<open>cut_clips\<close> reads and
  writes. \<^verbatim>\<open>__init__\<close> sets \<^verbatim>\<open>cumulative_duration\<close> to 0.
\<close>

record remove_silence =
  timeline :: timeline_store
  cumulative_duration :: int

datatype error =
  NotFound | FileNotFoundError | IndexError | AttributeError string string | TypeError
  | ExternalToolFailure string

text \<open>
  \<^verbatim>\<open>s.split(sep)[0]\<close>: the text before the first separator, all of \<open>s\<close> when there is
  none.
\<close>

definition split0 :: "char \<Rightarrow> string \<Rightarrow> string" where
  "split0 sep s = takeWhile (\<lambda>c. c \<noteq> sep) s"

text \<open>
  \<^verbatim>\<open>get_loud_map\<close>: opens and parses the loud-map file of a video. The files are a map
  from the video name (which determines the path) to the parsed document; \<open>None\<close> is a
  file that is absent or cannot be read, where \<^verbatim>\<open>open\<close> raises.
\<close>

definition get_loud_map :: "(string \<rightharpoonup> loud_map_json) \<Rightarrow> string \<Rightarrow> error + loud_map_json" where
  "get_loud_map files video_name =
     (case files video_name of None \<Rightarrow> Inl FileNotFoundError | Some j \<Rightarrow> Inr j)"

text \<open>
  The body of \<^verbatim>\<open>for ref in self.timeline.video_assets_refs\<close> (lines 113 to 187). An
  exception leaves the loop and \<^verbatim>\<open>cut_clips\<close>; the result is the exception, if any,
  and the object as it is at that moment. \<^verbatim>\<open>get_clip_attributes(clip)['num_frames']\<close> is
  the field \<open>num_frames\<close> of the clip, and the calls of \<^verbatim>\<open>add_clip_to_timeline\<close> that the
  loop makes (\<open>asset_clips\<close>) are applied to the timeline in the order in which they are
  made.
\<close>

definition cut_asset ::
  "(string \<rightharpoonup> loud_map_json) \<Rightarrow> string \<Rightarrow> remove_silence \<Rightarrow> error option \<times> remove_silence" where
  "cut_asset files r self =
     (case get_stored_video_asset (timeline self) r 0 of
        None \<Rightarrow> (Some NotFound, self)
      | Some base_asset_clip \<Rightarrow>
          (let filename_without_extension = split0 CHR ''.'' (filename base_asset_clip);
               base_clip_duration = num_frames base_asset_clip
           in case get_loud_map files filename_without_extension of
                Inl e \<Rightarrow> (Some e, self)
              | Inr loud_map_json \<Rightarrow>
                  (case json_v loud_map_json of
                     [] \<Rightarrow> (Some IndexError, self)
                   | loud_map # _ \<Rightarrow>
                       (let timebase = split0 CHR ''/'' (json_timebase loud_map_json);
                            previous_video_duration = cumulative_duration self;
                            self1 = self\<lparr>timeline :=
                              foldl add_clip_to_timeline (timeline self)
                                (asset_clips base_asset_clip timebase previous_video_duration
                                   loud_map)\<rparr>;
                            self2 = self1\<lparr>cumulative_duration :=
                              cumulative_duration self1 + base_clip_duration\<rparr>
                        in case remove_stored_video_asset (timeline self2) r 0 of
                             None \<Rightarrow> (Some NotFound, self2)
                           | Some tml \<Rightarrow> (None, self2\<lparr>timeline := tml\<rparr>)))))"

text \<open>The \<^verbatim>\<open>for\<close> loop over the asset references: it stops at the first exception.\<close>

fun cut_refs ::
  "(string \<rightharpoonup> loud_map_json) \<Rightarrow> string list \<Rightarrow> remove_silence \<Rightarrow> error option \<times> remove_silence" where
  "cut_refs files [] self = (None, self)"
| "cut_refs files (r # rs) self =
     (case cut_asset files r self of
        (Some e, self') \<Rightarrow> (Some e, self')
      | (None, self') \<Rightarrow> cut_refs files rs self')"

text \<open>
  \<^verbatim>\<open>cut_clips\<close>: the loop, then one call of \<^verbatim>\<open>update_sequence_duration\<close> (line 190,
  after the loop), which an exception in the loop skips.
\<close>

definition cut_clips ::
  "(string \<rightharpoonup> loud_map_json) \<Rightarrow> remove_silence \<Rightarrow> error option \<times> remove_silence" where
  "cut_clips files self =
     (case cut_refs files (video_assets_refs (timeline self)) self of
        (Some e, self') \<Rightarrow> (Some e, self')
      | (None, self') \<Rightarrow> (None, self'\<lparr>timeline := update_sequence_duration (timeline self')\<rparr>))"

text \<open>\<^verbatim>\<open>remove_silence\<close> (lines 192 to 196): the body is \<^verbatim>\<open>pass\<close>.\<close>

definition remove_silence_stub :: "'self \<Rightarrow> error option \<times> 'self" where
  "remove_silence_stub self = (None, self)"

section \<open>Vocabulary of the properties\<close>

text \<open>
  A loud map is well formed for an asset of duration \<open>D\<close> when its intervals are sorted
  ascending and do not overlap (each starts at or after the end of the one before, the
  first at or after 0), have a duration that is not negative, and lie inside the asset
  (the last one ends at or before \<open>D\<close>). \<open>well_formed_from c D\<close> checks this from the
  cursor \<open>c\<close> on.
\<close>

fun well_formed_from :: "int \<Rightarrow> int \<Rightarrow> loud_part list \<Rightarrow> bool" where
  "well_formed_from c D [] = (c \<le> D)"
| "well_formed_from c D (p # ps) =
     (c \<le> part_offset p \<and> 0 \<le> dur p \<and> well_formed_from (part_offset p + dur p) D ps)"

text \<open>
  \<open>contiguous a cs b\<close>: the clips \<open>cs\<close>, in this order, tile the source range from \<open>a\<close>
  to \<open>b\<close>: the first starts at \<open>a\<close>, each next one starts where the one before ends,
  the last ends at \<open>b\<close>.
\<close>

fun contiguous :: "int \<Rightarrow> clip list \<Rightarrow> int \<Rightarrow> bool" where
  "contiguous a [] b = (a = b)"
| "contiguous a (c # cs) b = (start c = a \<and> contiguous (a + num_frames c) cs b)"

text \<open>
  \<open>covers c D loud_map\<close>: the loud intervals tile the range from \<open>c\<close> to \<open>D\<close> with no gap.
\<close>

fun covers :: "int \<Rightarrow> int \<Rightarrow> loud_part list \<Rightarrow> bool" where
  "covers c D [] = (c = D)"
| "covers c D (p # ps) = (part_offset p = c \<and> covers (c + dur p) D ps)"

text \<open>
  An asset of a run is given by its base clip and its loud-map document.
  \<open>asset_emitted base a\<close> are the calls of \<^verbatim>\<open>add_clip_to_timeline\<close> that \<open>cut_asset\<close>
  makes for it when \<^verbatim>\<open>self.cumulative_duration\<close> is \<open>base\<close>; \<open>duration_before assets k\<close>
  is the cumulative duration of the assets processed before asset number \<open>k\<close>.
\<close>

definition asset_emitted :: "int \<Rightarrow> clip \<times> loud_map_json \<Rightarrow> clip list" where
  "asset_emitted base a =
     (case json_v (snd a) of
        [] \<Rightarrow> []
      | loud_map # _ \<Rightarrow>
          asset_clips (fst a) (split0 CHR ''/'' (json_timebase (snd a))) base loud_map)"

definition duration_before :: "(clip \<times> loud_map_json) list \<Rightarrow> nat \<Rightarrow> int" where
  "duration_before assets k = sum_list (map (\<lambda>a. num_frames (fst a)) (take k assets))"

fun run_emitted :: "int \<Rightarrow> (clip \<times> loud_map_json) list \<Rightarrow> clip list" where
  "run_emitted base [] = []"
| "run_emitted base (a # as) = asset_emitted base a @ run_emitted (base + num_frames (fst a)) as"

subsection \<open>Concrete inputs\<close>

text \<open>The full-duration clip of an asset, as it is on the sequence before the split.\<close>

definition base_clip :: "string \<Rightarrow> string \<Rightarrow> int \<Rightarrow> int \<Rightarrow> clip" where
  "base_clip r n d off =
     \<lparr>video_ref = r, num_frames = d, start = 0, offset = off, fps = ''30'', filename = n,
      custom_attrib = []\<rparr>"

text \<open>
  Two assets: the first of 100 frames with an empty loud map, the second of 80 frames
  with the loud map \<open>[(0, 80)]\<close>.
\<close>

definition two_assets :: "(clip \<times> loud_map_json) list" where
  "two_assets =
     [(base_clip ''r1'' ''first.mp4'' 100 0, \<lparr>json_timebase = ''30/1'', json_v = [[]]\<rparr>),
      (base_clip ''r2'' ''second.mp4'' 80 100,
       \<lparr>json_timebase = ''30/1'', json_v = [[\<lparr>part_offset = 0, dur = 80\<rparr>]]\<rparr>)]"

definition two_assets_files :: "string \<rightharpoonup> loud_map_json" where
  "two_assets_files = [''first'' \<mapsto> snd (two_assets ! 0), ''second'' \<mapsto> snd (two_assets ! 1)]"

definition two_assets_self :: remove_silence where
  "two_assets_self =
     \<lparr>timeline = \<lparr>video_assets_refs = [''r1'', ''r2''], clips = map fst two_assets,
        sequence_duration = 180, sequence_duration_updates = 0\<rparr>,
      cumulative_duration = 0\<rparr>"

text \<open>
  One asset of 100 frames, timebase \<open>30/1\<close>, loud map \<open>[(10, 20), (50, 10)]\<close>, processed
  first.
\<close>

definition one_asset_clip :: clip where
  "one_asset_clip = base_clip ''r1'' ''talk.mp4'' 100 0"

definition one_asset_map :: "loud_part list" where
  "one_asset_map = [\<lparr>part_offset = 10, dur = 20\<rparr>, \<lparr>part_offset = 50, dur = 10\<rparr>]"

definition one_asset_files :: "string \<rightharpoonup> loud_map_json" where
  "one_asset_files = [''talk'' \<mapsto> \<lparr>json_timebase = ''30/1'', json_v = [one_asset_map]\<rparr>]"

definition one_asset_self :: remove_silence where
  "one_asset_self =
     \<lparr>timeline = \<lparr>video_assets_refs = [''r1''], clips = [one_asset_clip],
        sequence_duration = 100, sequence_duration_updates = 0\<rparr>,
      cumulative_duration = 0\<rparr>"

text \<open>
  A loud map that is not sorted, and one that covers an asset of 100 frames with no gap.
\<close>

definition unsorted_map :: "loud_part list" where
  "unsorted_map = [\<lparr>part_offset = 50, dur = 10\<rparr>, \<lparr>part_offset = 10, dur = 20\<rparr>]"

definition unsorted_files :: "string \<rightharpoonup> loud_map_json" where
  "unsorted_files = [''talk'' \<mapsto> \<lparr>json_timebase = ''30/1'', json_v = [unsorted_map]\<rparr>]"

definition full_map :: "loud_part list" where
  "full_map = [\<lparr>part_offset = 0, dur = 60\<rparr>, \<lparr>part_offset = 60, dur = 40\<rparr>]"

text \<open>
  The two assets again, with the loud-map file of the second one missing, and the object
  as it is once the first asset has been split.
\<close>

definition second_missing_files :: "string \<rightharpoonup> loud_map_json" where
  "second_missing_files = [''first'' \<mapsto> snd (two_assets ! 0)]"

definition after_first_asset :: remove_silence where
  "after_first_asset =
     \<lparr>timeline = \<lparr>video_assets_refs = [''r1'', ''r2''],
        clips =
          [base_clip ''r2'' ''second.mp4'' 80 100,
           \<lparr>video_ref = ''r1'', num_frames = 100, start = 0, offset = 0, fps = ''30'',
            filename = ''first.mp4'', custom_attrib = [(''ave_silent'', ''true'')]\<rparr>],
        sequence_duration = 180, sequence_duration_updates = 0\<rparr>,
      cumulative_duration = 100\<rparr>"

section \<open>The orchestrator (orchestrator.py, \_\_main\_\_.py)\<close>

text \<open>The parsed command line (\<^verbatim>\<open>parse_arguments\<close>).\<close>

record arguments =
  input :: string
  skip_preprocess :: bool
  already_preprocessed :: bool
  just_subtitles :: bool
  skip_subtitles :: bool
  skip_jcut :: bool

text \<open>
  The \<^verbatim>\<open>PreprocessVideos\<close> object, of which the orchestrator reads one attribute, and the
  \<^verbatim>\<open>RemoveSilence\<close> object as the orchestrator builds it: its timeline argument may be
  \<^verbatim>\<open>None\<close>.
\<close>

record preprocess_object =
  preprocessed_folder :: string

record rs_object =
  rs_timeline :: "timeline_store option"
  videos_folder :: string
  rs_cumulative_duration :: int

text \<open>
  The attributes of the \<^verbatim>\<open>Orchestrator\<close> object that the steps up to
  \<^verbatim>\<open>remove_silence\<close> use; \<open>None\<close> is Python's \<^verbatim>\<open>None\<close>, the value \<^verbatim>\<open>__init__\<close> gives
  to each of them.
\<close>

record orchestrator =
  args :: arguments
  input_folder :: "string option"
  input_video :: "string option"
  preprocess_feat :: "preprocess_object option"
  remove_silence_feat :: "rs_object option"
  orch_timeline :: "timeline_store option"

definition Orchestrator_init :: "arguments \<Rightarrow> orchestrator" where
  "Orchestrator_init a =
     \<lparr>args = a, input_folder = None, input_video = None, preprocess_feat = None,
      remove_silence_feat = None, orch_timeline = None\<rparr>"

text \<open>
  The code that the orchestrator calls and that is not among the sources (the classes
  \<^verbatim>\<open>PreprocessVideos\<close>, \<^verbatim>\<open>Timeline\<close>, \<^verbatim>\<open>Concatenate\<close>, the methods of
  \<^verbatim>\<open>RemoveSilence\<close> that run external tools, and the steps of \<^verbatim>\<open>main\<close> after
  \<^verbatim>\<open>remove_silence\<close>) is a parameter of the model.
\<close>

record externals =
  PreprocessVideos_init :: "string \<Rightarrow> error + preprocess_object"
  preprocess_all_videos_in_folder :: "preprocess_object \<Rightarrow> error option \<times> preprocess_object"
  os_path_dirname :: "string \<Rightarrow> string"
  Timeline_init :: "string option \<Rightarrow> error + timeline_store"
  concatenate_video_files ::
    "timeline_store option \<Rightarrow> string option \<Rightarrow> error option \<times> timeline_store option"
  RemoveSilence_other :: "string \<Rightarrow> rs_object \<Rightarrow> error option \<times> rs_object"
  later_steps :: "orchestrator \<Rightarrow> error option \<times> orchestrator"

text \<open>
  The names that attribute lookup finds on a \<^verbatim>\<open>RemoveSilence\<close> object: the attributes
  that \<^verbatim>\<open>__init__\<close> sets (lines 13 to 28) and the methods that the class defines. (The
  class has no base class but \<^verbatim>\<open>object\<close>, whose attributes all have names of the form
  \<^verbatim>\<open>__x__\<close>.)
\<close>

definition RemoveSilence_attributes :: "string list" where
  "RemoveSilence_attributes =
     [''timeline'', ''videos_folder'', ''loud_maps_folder'', ''loud_map_sufix'',
      ''loud_video_preview_sufix'', ''preview_videos_list_file'', ''preview_final_video'',
      ''cumulative_duration'', ''margin'',
      ''__init__'', ''generate_video_loud_map'', ''generate_loud_video_preview'',
      ''generate_loud_map_for_each_video_in_folder'', ''get_loud_map'', ''cut_clips'',
      ''remove_silence'', ''generate_previews_for_videos'', ''join_all_preview_videos'',
      ''generate_final_preview_video'']"

text \<open>
  \<^verbatim>\<open>RemoveSilence.__init__(timeline, videos_folder)\<close>:
  \<^verbatim>\<open>os.path.join(videos_folder, 'remove_silence')\<close> raises \<^verbatim>\<open>TypeError\<close> on \<^verbatim>\<open>None\<close>.
\<close>

definition RemoveSilence_init :: "timeline_store option \<Rightarrow> string option \<Rightarrow> error + rs_object" where
  "RemoveSilence_init tml folder =
     (case folder of
        None \<Rightarrow> Inl TypeError
      | Some f \<Rightarrow> Inr \<lparr>rs_timeline = tml, videos_folder = f, rs_cumulative_duration = 0\<rparr>)"

text \<open>
  The call \<^verbatim>\<open>obj.name()\<close> on a \<^verbatim>\<open>RemoveSilence\<close> object: the lookup of the name comes
  first and raises \<^verbatim>\<open>AttributeError\<close> when the object has no such attribute.
\<close>

definition call_RemoveSilence ::
  "(string \<Rightarrow> rs_object \<Rightarrow> error option \<times> rs_object) \<Rightarrow> (string \<rightharpoonup> loud_map_json) \<Rightarrow>
     string \<Rightarrow> rs_object \<Rightarrow> error option \<times> rs_object" where
  "call_RemoveSilence other files name obj =
     (if name \<notin> set RemoveSilence_attributes then
        (Some (AttributeError ''RemoveSilence'' name), obj)
      else if name = ''cut_clips'' then
        (case rs_timeline obj of
           None \<Rightarrow> (Some (AttributeError ''NoneType'' ''video_assets_refs''), obj)
         | Some tml \<Rightarrow>
             (case cut_clips files
                     \<lparr>timeline = tml, cumulative_duration = rs_cumulative_duration obj\<rparr> of
                (e, self') \<Rightarrow>
                  (e, obj\<lparr>rs_timeline := Some (timeline self'),
                          rs_cumulative_duration := cumulative_duration self'\<rparr>)))
      else if name = ''remove_silence'' then remove_silence_stub obj
      else other name obj)"

text \<open>The steps of \<^verbatim>\<open>main\<close>, each a method of the orchestrator.\<close>

definition preprocess_videos :: "externals \<Rightarrow> orchestrator \<Rightarrow> error option \<times> orchestrator" where
  "preprocess_videos ext self =
     (if just_subtitles (args self) then (None, self)
      else if skip_preprocess (args self) then (None, self)
      else if already_preprocessed (args self) then
        (case PreprocessVideos_init ext (input (args self)) of
           Inl e \<Rightarrow> (Some e, self)
         | Inr p \<Rightarrow> (None, self\<lparr>preprocess_feat := Some p\<rparr>))
      else
        (case preprocess_feat self of
           None \<Rightarrow> (Some (AttributeError ''NoneType'' ''preprocess_all_videos_in_folder''), self)
         | Some p \<Rightarrow>
             (case preprocess_all_videos_in_folder ext p of
                (e, p') \<Rightarrow> (e, self\<lparr>preprocess_feat := Some p'\<rparr>))))"

definition determine_input_folder :: "externals \<Rightarrow> orchestrator \<Rightarrow> error option \<times> orchestrator" where
  "determine_input_folder ext self =
     (if just_subtitles (args self) then
        (None, self\<lparr>input_folder := Some (os_path_dirname ext (input (args self))),
                     input_video := Some (input (args self))\<rparr>)
      else if already_preprocessed (args self) then
        (case preprocess_feat self of
           None \<Rightarrow> (Some (AttributeError ''NoneType'' ''preprocessed_folder''), self)
         | Some p \<Rightarrow> (None, self\<lparr>input_folder := Some (preprocessed_folder p)\<rparr>))
      else (None, self\<lparr>input_folder := Some (input (args self))\<rparr>))"

definition create_timeline :: "externals \<Rightarrow> orchestrator \<Rightarrow> error option \<times> orchestrator" where
  "create_timeline ext self =
     (if just_subtitles (args self) then (None, self)
      else
        (case Timeline_init ext (input_folder self) of
           Inl e \<Rightarrow> (Some e, self)
         | Inr tml \<Rightarrow> (None, self\<lparr>orch_timeline := Some tml\<rparr>)))"

definition concatenate_files :: "externals \<Rightarrow> orchestrator \<Rightarrow> error option \<times> orchestrator" where
  "concatenate_files ext self =
     (if just_subtitles (args self) then (None, self)
      else
        (case concatenate_video_files ext (orch_timeline self) (input_folder self) of
           (e, tml) \<Rightarrow> (e, self\<lparr>orch_timeline := tml\<rparr>)))"

text \<open>
  \<^verbatim>\<open>Orchestrator.remove_silence\<close> (lines 89 to 96). The timeline is one object that the
  orchestrator and the \<^verbatim>\<open>RemoveSilence\<close> object share, so what the call does to it shows
  in \<open>orch_timeline\<close>.
\<close>

definition Orchestrator_remove_silence ::
  "externals \<Rightarrow> (string \<rightharpoonup> loud_map_json) \<Rightarrow> orchestrator \<Rightarrow> error option \<times> orchestrator" where
  "Orchestrator_remove_silence ext files self =
     (if just_subtitles (args self) then (None, self)
      else
        (case RemoveSilence_init (orch_timeline self) (input_folder self) of
           Inl e \<Rightarrow> (Some e, self)
         | Inr obj \<Rightarrow>
             (case call_RemoveSilence (RemoveSilence_other ext) files
                     ''remove_silence_from_videos'' obj of
                (e, obj') \<Rightarrow>
                  (e, self\<lparr>remove_silence_feat := Some obj',
                           orch_timeline := rs_timeline obj'\<rparr>))))"

text \<open>A sequence of calls: the first exception ends it.\<close>

fun run_steps :: "('s \<Rightarrow> error option \<times> 's) list \<Rightarrow> 's \<Rightarrow> error option \<times> 's" where
  "run_steps [] s = (None, s)"
| "run_steps (f # fs) s =
     (case f s of
        (Some e, s') \<Rightarrow> (Some e, s')
      | (None, s') \<Rightarrow> run_steps fs s')"

text \<open>\<^verbatim>\<open>main\<close> (\_\_main\_\_.py), for the command line \<open>a\<close>.\<close>

definition main ::
  "externals \<Rightarrow> (string \<rightharpoonup> loud_map_json) \<Rightarrow> arguments \<Rightarrow> error option \<times> orchestrator" where
  "main ext files a =
     run_steps
       [preprocess_videos ext, determine_input_folder ext, create_timeline ext,
        concatenate_files ext, Orchestrator_remove_silence ext files, later_steps ext]
       (Orchestrator_init a)"

text \<open>
  Command lines: no flag at all, and \<^verbatim>\<open>--skip-preprocess\<close> alone; and external code that
  succeeds, the concatenation placing the two assets.
\<close>

definition no_flags :: arguments where
  "no_flags =
     \<lparr>input = ''videos'', skip_preprocess = False, already_preprocessed = False,
      just_subtitles = False, skip_subtitles = False, skip_jcut = False\<rparr>"

definition externals_ok :: externals where
  "externals_ok =
     \<lparr>PreprocessVideos_init = (\<lambda>i. Inr \<lparr>preprocessed_folder = i @ ''/preprocessed''\<rparr>),
      preprocess_all_videos_in_folder = (\<lambda>p. (None, p)),
      os_path_dirname = (\<lambda>i. i),
      Timeline_init =
        (\<lambda>f. Inr \<lparr>video_assets_refs = [], clips = [], sequence_duration = 0,
                   sequence_duration_updates = 0\<rparr>),
      concatenate_video_files = (\<lambda>tml f. (None, Some (timeline two_assets_self))),
      RemoveSilence_other = (\<lambda>name obj. (None, obj)),
      later_steps = (\<lambda>self. (None, self))\<rparr>"

section \<open>Lemmas on the split of one asset\<close>

lemma split_loud_parts_placement:
  "po = ps \<Longrightarrow> c \<in> set (split_loud_parts b tb D pvd po ps pd lm) \<Longrightarrow> offset c = pvd + start c"
  by (induction lm arbitrary: po ps pd) (auto simp: Let_def split: if_splits)

lemma contiguous_append:
  "contiguous a (xs @ ys) b \<longleftrightarrow> (\<exists>m. contiguous a xs m \<and> contiguous m ys b)"
  by (induction xs arbitrary: a) auto

lemma split_loud_parts_contiguous:
  "po = ps \<Longrightarrow> well_formed_from (ps + pd) D lm \<Longrightarrow>
   contiguous (ps + pd) (split_loud_parts b tb D pvd po ps pd lm) D"
  by (induction lm arbitrary: po ps pd) (auto simp: Let_def split: if_splits)

lemma contiguous_sum: "contiguous a cs b \<Longrightarrow> a + sum_list (map num_frames cs) = b"
  by (induction cs arbitrary: a) (auto simp: add.assoc [symmetric])

lemma contiguous_nth:
  "contiguous a cs b \<Longrightarrow> Suc i < length cs \<Longrightarrow> start (cs ! i) + num_frames (cs ! i) = start (cs ! Suc i)"
proof (induction cs arbitrary: a i)
  case Nil then show ?case by simp
next
  case (Cons c cs)
  show ?case
  proof (cases i)
    case 0
    with Cons.prems show ?thesis by (cases cs) auto
  next
    case (Suc j)
    with Cons show ?thesis by auto
  qed
qed

lemma contiguous_hd: "contiguous a cs b \<Longrightarrow> cs \<noteq> [] \<Longrightarrow> start (hd cs) = a"
  by (cases cs) auto

lemma contiguous_last: "contiguous a cs b \<Longrightarrow> cs \<noteq> [] \<Longrightarrow> start (last cs) + num_frames (last cs) = b"
  by (induction cs arbitrary: a) (auto split: if_splits)

section \<open>Lemmas on the run\<close>

lemma foldl_add_clip_to_timeline:
  "foldl add_clip_to_timeline tml cs = tml\<lparr>clips := clips tml @ cs\<rparr>"
  by (induction cs arbitrary: tml) (simp_all add: add_clip_to_timeline_def)

lemma remove_nth_where_append:
  "remove_nth_where P 0 xs = Some zs \<Longrightarrow> remove_nth_where P 0 (xs @ ys) = Some (zs @ ys)"
  by (induction xs arbitrary: zs) (auto split: if_splits)

lemma nth_where_remove:
  "nth_where P 0 xs = Some x \<Longrightarrow> \<exists>zs. remove_nth_where P 0 xs = Some zs"
  by (induction xs) (auto split: if_splits)

lemma cut_asset_success:
  assumes "get_stored_video_asset (timeline self) r 0 = Some b"
      and "files (split0 CHR ''.'' (filename b)) = Some j"
      and "json_v j = lm # others"
      and "remove_nth_where (\<lambda>c. video_ref c = r) 0 (clips (timeline self)) = Some rest"
  shows "cut_asset files r self =
     (None, self\<lparr>timeline := (timeline self)\<lparr>clips := rest @
               asset_clips b (split0 CHR ''/'' (json_timebase j)) (cumulative_duration self) lm\<rparr>,
             cumulative_duration := cumulative_duration self + num_frames b\<rparr>)"
  using assms
  by (simp add: cut_asset_def get_loud_map_def Let_def foldl_add_clip_to_timeline
      remove_stored_video_asset_def remove_nth_where_append)

lemma cut_asset_keeps:
  "cut_asset files r self = (e, self') \<Longrightarrow>
     sequence_duration (timeline self') = sequence_duration (timeline self) \<and>
     sequence_duration_updates (timeline self') = sequence_duration_updates (timeline self) \<and>
     video_assets_refs (timeline self') = video_assets_refs (timeline self)"
  by (auto simp: cut_asset_def get_loud_map_def Let_def foldl_add_clip_to_timeline
      remove_stored_video_asset_def split: option.splits sum.splits list.splits)

lemma cut_refs_keeps:
  "cut_refs files rs self = (e, self') \<Longrightarrow>
     sequence_duration (timeline self') = sequence_duration (timeline self) \<and>
     sequence_duration_updates (timeline self') = sequence_duration_updates (timeline self) \<and>
     video_assets_refs (timeline self') = video_assets_refs (timeline self)"
proof (induction rs arbitrary: self)
  case Nil then show ?case by simp
next
  case (Cons r rs)
  obtain e1 s1 where s1: "cut_asset files r self = (e1, s1)" by (cases "cut_asset files r self")
  show ?case
  proof (cases e1)
    case None
    with Cons.prems s1 have "cut_refs files rs s1 = (e, self')" by simp
    from Cons.IH [OF this] cut_asset_keeps [OF s1] show ?thesis by simp
  next
    case (Some x)
    with Cons.prems s1 have "self' = s1" by simp
    with cut_asset_keeps [OF s1] show ?thesis by simp
  qed
qed

lemma cut_refs_append:
  "cut_refs files (xs @ ys) self =
     (case cut_refs files xs self of
        (Some e, s) \<Rightarrow> (Some e, s)
      | (None, s) \<Rightarrow> cut_refs files ys s)"
  by (induction xs arbitrary: self) (auto split: prod.splits option.splits)

lemma run_emitted_concat:
  "run_emitted base assets =
     concat (map (\<lambda>k. asset_emitted (base + duration_before assets k) (assets ! k))
       [0..<length assets])"
proof (induction assets arbitrary: base)
  case Nil then show ?case by simp
next
  case (Cons a as)
  have "[0..<length (a # as)] = 0 # map Suc [0..<length as]"
    by (simp add: upt_conv_Cons map_Suc_upt del: upt_Suc)
  then show ?case
    by (simp add: Cons.IH duration_before_def comp_def add.assoc del: upt_Suc)
qed

lemma cut_refs_run:
  assumes "clips (timeline self) = map fst assets @ acc"
      and "\<forall>a\<in>set assets. files (split0 CHR ''.'' (filename (fst a))) = Some (snd a) \<and> json_v (snd a) \<noteq> []"
  shows "cut_refs files (map (\<lambda>a. video_ref (fst a)) assets) self =
     (None, self\<lparr>timeline := (timeline self)\<lparr>clips := acc @
               run_emitted (cumulative_duration self) assets\<rparr>,
             cumulative_duration := cumulative_duration self +
               sum_list (map (\<lambda>a. num_frames (fst a)) assets)\<rparr>)"
  using assms
proof (induction assets arbitrary: self acc)
  case Nil
  then show ?case by simp
next
  case (Cons a as)
  obtain lm others where lm: "json_v (snd a) = lm # others"
    using Cons.prems(2) by (cases "json_v (snd a)") auto
  let ?s1 = "self\<lparr>timeline := (timeline self)\<lparr>clips := (map fst as @ acc) @
               asset_clips (fst a) (split0 CHR ''/'' (json_timebase (snd a)))
                 (cumulative_duration self) lm\<rparr>,
             cumulative_duration := cumulative_duration self + num_frames (fst a)\<rparr>"
  have step: "cut_asset files (video_ref (fst a)) self = (None, ?s1)"
    by (rule cut_asset_success [where j = "snd a" and others = others])
       (use Cons.prems lm in \<open>simp_all add: get_stored_video_asset_def\<close>)
  have "cut_refs files (map (\<lambda>a. video_ref (fst a)) as) ?s1 =
     (None, ?s1\<lparr>timeline := (timeline ?s1)\<lparr>clips :=
               (acc @ asset_clips (fst a) (split0 CHR ''/'' (json_timebase (snd a)))
                 (cumulative_duration self) lm) @
               run_emitted (cumulative_duration ?s1) as\<rparr>,
             cumulative_duration := cumulative_duration ?s1 +
               sum_list (map (\<lambda>a. num_frames (fst a)) as)\<rparr>)"
    by (rule Cons.IH) (use Cons.prems in simp_all)
  then show ?case
    using step lm by (simp add: asset_emitted_def add.assoc)
qed

section \<open>Placement of the sub-clips (claim C1)\<close>

text \<open>
  C1. Take a run of \<open>cut_clips\<close> on a timeline that holds one base clip per registered
  asset, in registration order, with \<^verbatim>\<open>cumulative_duration\<close> 0 as \<^verbatim>\<open>__init__\<close> leaves it
  and every loud map loadable. The run raises nothing, the final sequence consists of the
  sub-clips emitted for asset 0, then asset 1, and so on, and every sub-clip emitted for
  asset \<open>k\<close> has placement offset = (sum of the base-clip durations of the assets before
  \<open>k\<close>) + source in-point. The loud maps need not even be well formed. The witness is the
  scenario of two assets (100 frames, empty map; 80 frames, map \<open>[(0, 80)]\<close>): the sole
  sub-clip of the second asset is placed at 100.
\<close>

theorem cut_clips_placement:
  assumes "video_assets_refs (timeline self) = map (\<lambda>a. video_ref (fst a)) assets"
      and "clips (timeline self) = map fst assets"
      and "cumulative_duration self = 0"
      and "\<forall>a\<in>set assets. files (split0 CHR ''.'' (filename (fst a))) = Some (snd a) \<and>
             json_v (snd a) \<noteq> []"
  shows "fst (cut_clips files self) = None \<and>
         clips (timeline (snd (cut_clips files self))) =
           concat (map (\<lambda>k. asset_emitted (duration_before assets k) (assets ! k))
             [0..<length assets]) \<and>
         (\<forall>k<length assets. \<forall>c\<in>set (asset_emitted (duration_before assets k) (assets ! k)).
            offset c = duration_before assets k + start c)"
proof -
  have run: "cut_refs files (video_assets_refs (timeline self)) self =
     (None, self\<lparr>timeline := (timeline self)\<lparr>clips := [] @
               run_emitted (cumulative_duration self) assets\<rparr>,
             cumulative_duration := cumulative_duration self +
               sum_list (map (\<lambda>a. num_frames (fst a)) assets)\<rparr>)"
    unfolding assms(1) by (rule cut_refs_run) (use assms in simp_all)
  have placed: "offset c = base + start c" if "c \<in> set (asset_emitted base a)" for c base a
    using that
    by (auto simp: asset_emitted_def asset_clips_def split: list.splits
        dest: split_loud_parts_placement [rotated])
  from run have "fst (cut_clips files self) = None"
    by (simp add: cut_clips_def)
  moreover from run have "clips (timeline (snd (cut_clips files self))) =
      run_emitted 0 assets"
    by (simp add: cut_clips_def update_sequence_duration_def assms(3))
  ultimately show ?thesis
    using placed by (simp add: run_emitted_concat)
qed

theorem cut_clips_placement_witness:
  "video_assets_refs (timeline two_assets_self) = map (\<lambda>a. video_ref (fst a)) two_assets \<and>
   clips (timeline two_assets_self) = map fst two_assets \<and>
   cumulative_duration two_assets_self = 0 \<and>
   list_all (\<lambda>a. two_assets_files (split0 CHR ''.'' (filename (fst a))) = Some (snd a) \<and>
      json_v (snd a) \<noteq> []) two_assets \<and>
   fst (cut_clips two_assets_files two_assets_self) = None \<and>
   duration_before two_assets 1 = 100 \<and>
   asset_emitted (duration_before two_assets 1) (two_assets ! 1) =
     [\<lparr>video_ref = ''r2'', num_frames = 80, start = 0, offset = 100, fps = ''30'',
       filename = ''second.mp4'', custom_attrib = []\<rparr>] \<and>
   clips (timeline (snd (cut_clips two_assets_files two_assets_self))) =
     [\<lparr>video_ref = ''r1'', num_frames = 100, start = 0, offset = 0, fps = ''30'',
       filename = ''first.mp4'', custom_attrib = [(''ave_silent'', ''true'')]\<rparr>,
      \<lparr>video_ref = ''r2'', num_frames = 80, start = 0, offset = 100, fps = ''30'',
       filename = ''second.mp4'', custom_attrib = []\<rparr>] \<and>
   list_all (\<lambda>c. offset c = duration_before two_assets 1 + start c)
     (asset_emitted (duration_before two_assets 1) (two_assets ! 1))"
proof -
  have h1: "video_assets_refs (timeline two_assets_self) = map (\<lambda>a. video_ref (fst a)) two_assets"
    by (simp add: two_assets_self_def two_assets_def base_clip_def)
  have h2: "clips (timeline two_assets_self) = map fst two_assets"
    by (simp add: two_assets_self_def)
  have h3: "cumulative_duration two_assets_self = 0"
    by (simp add: two_assets_self_def)
  have h4: "\<forall>a\<in>set two_assets. two_assets_files (split0 CHR ''.'' (filename (fst a))) = Some (snd a) \<and>
      json_v (snd a) \<noteq> []"
    by (simp add: two_assets_files_def two_assets_def base_clip_def split0_def)
  have d: "duration_before two_assets 1 = 100"
    by (simp add: duration_before_def two_assets_def base_clip_def)
  have d0: "duration_before two_assets 0 = 0"
    by (simp add: duration_before_def)
  have e1: "asset_emitted 100 (two_assets ! 1) =
     [\<lparr>video_ref = ''r2'', num_frames = 80, start = 0, offset = 100, fps = ''30'',
       filename = ''second.mp4'', custom_attrib = []\<rparr>]"
    by (simp add: asset_emitted_def asset_clips_def two_assets_def base_clip_def split0_def Let_def)
  have e0: "asset_emitted 0 (two_assets ! 0) =
     [\<lparr>video_ref = ''r1'', num_frames = 100, start = 0, offset = 0, fps = ''30'',
       filename = ''first.mp4'', custom_attrib = [(''ave_silent'', ''true'')]\<rparr>]"
    by (simp add: asset_emitted_def asset_clips_def two_assets_def base_clip_def split0_def Let_def)
  have len: "[0..<length two_assets] = [0, 1]"
    by (simp add: two_assets_def upt_conv_Cons)
  from cut_clips_placement [OF h1 h2 h3 h4] h1 h2 h3 h4 d d0 e0 e1 len
  show ?thesis by (simp add: list_all_iff)
qed

section \<open>Concrete runs\<close>

lemma one_asset_clips:
  "asset_clips one_asset_clip ''30'' 0 one_asset_map =
     [\<lparr>video_ref = ''r1'', num_frames = 10, start = 0, offset = 0, fps = ''30'',
       filename = ''talk.mp4'', custom_attrib = [(''ave_silent'', ''true'')]\<rparr>,
      \<lparr>video_ref = ''r1'', num_frames = 20, start = 10, offset = 10, fps = ''30'',
       filename = ''talk.mp4'', custom_attrib = []\<rparr>,
      \<lparr>video_ref = ''r1'', num_frames = 20, start = 30, offset = 30, fps = ''30'',
       filename = ''talk.mp4'', custom_attrib = [(''ave_silent'', ''true'')]\<rparr>,
      \<lparr>video_ref = ''r1'', num_frames = 10, start = 50, offset = 50, fps = ''30'',
       filename = ''talk.mp4'', custom_attrib = []\<rparr>,
      \<lparr>video_ref = ''r1'', num_frames = 40, start = 60, offset = 60, fps = ''30'',
       filename = ''talk.mp4'', custom_attrib = [(''ave_silent'', ''true'')]\<rparr>]"
  by (simp add: asset_clips_def one_asset_clip_def base_clip_def one_asset_map_def Let_def)

section \<open>Coverage of the asset (claim C2)\<close>

text \<open>
  C2. For an asset whose loud map is well formed (sorted ascending, non-overlapping, inside
  the asset of duration \<open>D = num_frames b\<close>), the sub-clips emitted for it, in emission
  order, tile the asset: each sub-clip ends where the next one starts, the first one starts
  at source in-point 0, the last one ends at \<open>D\<close>, and the durations add up to \<open>D\<close>. When
  \<open>D\<close> is positive at least one sub-clip is emitted.
\<close>

theorem asset_clips_partition:
  assumes "well_formed_from 0 (num_frames b) lm"
  shows "(\<forall>i. Suc i < length (asset_clips b tb pvd lm) \<longrightarrow>
            start (asset_clips b tb pvd lm ! i) + num_frames (asset_clips b tb pvd lm ! i) =
            start (asset_clips b tb pvd lm ! Suc i)) \<and>
         (asset_clips b tb pvd lm \<noteq> [] \<longrightarrow>
            start (hd (asset_clips b tb pvd lm)) = 0 \<and>
            start (last (asset_clips b tb pvd lm)) + num_frames (last (asset_clips b tb pvd lm)) =
              num_frames b) \<and>
         (0 < num_frames b \<longrightarrow> asset_clips b tb pvd lm \<noteq> []) \<and>
         sum_list (map num_frames (asset_clips b tb pvd lm)) = num_frames b"
proof -
  have c: "contiguous 0 (asset_clips b tb pvd lm) (num_frames b)"
    using split_loud_parts_contiguous [of 0 0 0 "num_frames b" lm b tb pvd] assms
    by (simp add: asset_clips_def)
  have ne: "asset_clips b tb pvd lm \<noteq> []" if "0 < num_frames b"
    using c that by (cases "asset_clips b tb pvd lm") auto
  show ?thesis
    using contiguous_nth [OF c] contiguous_hd [OF c] contiguous_last [OF c]
      contiguous_sum [OF c] ne
    by simp
qed

theorem asset_clips_partition_witness:
  "well_formed_from 0 (num_frames one_asset_clip) one_asset_map \<and>
   map (\<lambda>c. (start c, num_frames c)) (asset_clips one_asset_clip ''30'' 0 one_asset_map) =
     [(0, 10), (10, 20), (30, 20), (50, 10), (60, 40)] \<and>
   start (asset_clips one_asset_clip ''30'' 0 one_asset_map ! 1) +
     num_frames (asset_clips one_asset_clip ''30'' 0 one_asset_map ! 1) =
     start (asset_clips one_asset_clip ''30'' 0 one_asset_map ! Suc 1) \<and>
   start (hd (asset_clips one_asset_clip ''30'' 0 one_asset_map)) = 0 \<and>
   start (last (asset_clips one_asset_clip ''30'' 0 one_asset_map)) +
     num_frames (last (asset_clips one_asset_clip ''30'' 0 one_asset_map)) = 100 \<and>
   sum_list (map num_frames (asset_clips one_asset_clip ''30'' 0 one_asset_map)) = 100"
proof -
  have wf: "well_formed_from 0 (num_frames one_asset_clip) one_asset_map"
    by (simp add: one_asset_clip_def base_clip_def one_asset_map_def)
  have d: "num_frames one_asset_clip = 100"
    by (simp add: one_asset_clip_def base_clip_def)
  from asset_clips_partition [OF wf, of "''30''" 0] wf d show ?thesis
    by (simp add: one_asset_clips)
qed

section \<open>The five sub-clips of the scenario (claim C6)\<close>

text \<open>
  C6. For the single asset of 100 frames with timebase \<open>30/1\<close>, processed first, and the loud
  map \<open>[(10, 20), (50, 10)]\<close>, \<open>cut_clips\<close> raises nothing and leaves exactly five
  sub-clips on the sequence, in this order: (0, 10, silent), (10, 20, loud), (30, 20, silent),
  (50, 10, loud), (60, 40, silent), each with placement offset equal to its source in-point.
\<close>

theorem cut_clips_one_asset:
  "cut_clips one_asset_files one_asset_self =
     (None,
      \<lparr>timeline = \<lparr>video_assets_refs = [''r1''],
         clips =
           [\<lparr>video_ref = ''r1'', num_frames = 10, start = 0, offset = 0, fps = ''30'',
             filename = ''talk.mp4'', custom_attrib = [(''ave_silent'', ''true'')]\<rparr>,
            \<lparr>video_ref = ''r1'', num_frames = 20, start = 10, offset = 10, fps = ''30'',
             filename = ''talk.mp4'', custom_attrib = []\<rparr>,
            \<lparr>video_ref = ''r1'', num_frames = 20, start = 30, offset = 30, fps = ''30'',
             filename = ''talk.mp4'', custom_attrib = [(''ave_silent'', ''true'')]\<rparr>,
            \<lparr>video_ref = ''r1'', num_frames = 10, start = 50, offset = 50, fps = ''30'',
             filename = ''talk.mp4'', custom_attrib = []\<rparr>,
            \<lparr>video_ref = ''r1'', num_frames = 40, start = 60, offset = 60, fps = ''30'',
             filename = ''talk.mp4'', custom_attrib = [(''ave_silent'', ''true'')]\<rparr>],
         sequence_duration = 100, sequence_duration_updates = 1\<rparr>,
       cumulative_duration = 100\<rparr>) \<and>
   map (\<lambda>c. (start c, num_frames c, is_silent c, offset c = 0 + start c))
     (clips (timeline (snd (cut_clips one_asset_files one_asset_self)))) =
     [(0, 10, True, True), (10, 20, False, True), (30, 20, True, True), (50, 10, False, True),
      (60, 40, True, True)]"
proof -
  have a: "cut_asset one_asset_files ''r1'' one_asset_self =
     (None, one_asset_self\<lparr>timeline := (timeline one_asset_self)\<lparr>clips :=
               asset_clips one_asset_clip ''30'' 0 one_asset_map\<rparr>,
             cumulative_duration := 100\<rparr>)"
    using cut_asset_success [of one_asset_self "''r1''" one_asset_clip one_asset_files
        "\<lparr>json_timebase = ''30/1'', json_v = [one_asset_map]\<rparr>" one_asset_map "[]" "[]"]
    by (simp add: get_stored_video_asset_def one_asset_self_def one_asset_clip_def
        base_clip_def one_asset_files_def split0_def)
  have "cut_clips one_asset_files one_asset_self =
     (None, one_asset_self\<lparr>timeline := update_sequence_duration ((timeline one_asset_self)\<lparr>clips := 
               asset_clips one_asset_clip ''30'' 0 one_asset_map\<rparr>),
             cumulative_duration := 100\<rparr>)"
    using a by (simp add: cut_clips_def one_asset_self_def)
  then show ?thesis
    by (simp add: one_asset_clips update_sequence_duration_def one_asset_self_def is_silent_def)
qed

section \<open>Empty loud map (claim C9)\<close>

text \<open>
  C9. For an asset of positive duration \<open>D\<close> whose loud map is empty, exactly one sub-clip is
  emitted: it is tagged silent, has source in-point 0 and duration \<open>D\<close>, and is placed at the
  cumulative base. For \<open>D = 50\<close> it is (0, 50, silent).
\<close>

theorem empty_loud_map_one_silent_clip:
  "0 < num_frames b \<Longrightarrow>
   asset_clips b tb pvd [] =
     [\<lparr>video_ref = video_ref b, num_frames = num_frames b, start = 0, offset = pvd, fps = tb,
       filename = filename b, custom_attrib = [(''ave_silent'', ''true'')]\<rparr>] \<and>
   list_all is_silent (asset_clips b tb pvd [])"
  by (simp add: asset_clips_def is_silent_def)

theorem empty_loud_map_one_silent_clip_witness:
  "0 < num_frames (base_clip ''r1'' ''quiet.mp4'' 50 0) \<and>
   map (\<lambda>c. (start c, num_frames c, is_silent c, offset c))
     (asset_clips (base_clip ''r1'' ''quiet.mp4'' 50 0) ''30'' 0 []) = [(0, 50, True, 0)]"
proof -
  have h: "0 < num_frames (base_clip ''r1'' ''quiet.mp4'' 50 0)"
    by (simp add: base_clip_def)
  from empty_loud_map_one_silent_clip [OF h, of "''30''" 0] h show ?thesis
    by (simp add: base_clip_def is_silent_def)
qed

section \<open>Lemmas on tags, lengths and gaps\<close>

lemma split_loud_parts_sites_snd:
  "map snd (split_loud_parts_sites b tb D pvd po ps pd lm) = split_loud_parts b tb D pvd po ps pd lm"
  by (induction lm arbitrary: po ps pd) (simp_all add: Let_def)

lemma split_loud_parts_sites_silent:
  "(s, c) \<in> set (split_loud_parts_sites b tb D pvd po ps pd lm) \<Longrightarrow>
     is_silent c \<longleftrightarrow> s \<noteq> Loud_part"
  by (induction lm arbitrary: po ps pd) (auto simp: Let_def is_silent_def split: if_splits)

lemma split_loud_parts_silent_positive:
  "c \<in> set (split_loud_parts b tb D pvd po ps pd lm) \<Longrightarrow> is_silent c \<Longrightarrow> 0 < num_frames c"
  by (induction lm arbitrary: po ps pd) (auto simp: Let_def is_silent_def split: if_splits)

lemma split_loud_parts_length:
  "length (split_loud_parts b tb D pvd po ps pd lm) \<le> 2 * length lm + 1"
proof (induction lm arbitrary: po ps pd)
  case Nil
  then show ?case by (simp add: Let_def)
next
  case (Cons p lm)
  have "length (split_loud_parts b tb D pvd (po + pd + (part_offset p - (ps + pd)))
          (part_offset p) (dur p) lm) \<le> 2 * length lm + 1"
    by (rule Cons.IH)
  then show ?case by (simp add: Let_def)
qed

lemma split_loud_parts_loud:
  "map (\<lambda>c. (start c, num_frames c))
     (filter (\<lambda>c. \<not> is_silent c) (split_loud_parts b tb D pvd po ps pd lm)) =
   map (\<lambda>p. (part_offset p, dur p)) lm"
  by (induction lm arbitrary: po ps pd) (auto simp: Let_def is_silent_def)

lemma split_loud_parts_covers:
  "po = ps \<Longrightarrow> covers (ps + pd) D lm \<Longrightarrow>
   split_loud_parts b tb D pvd po ps pd lm =
     map (\<lambda>p. \<lparr>video_ref = video_ref b, num_frames = dur p, start = part_offset p,
                offset = pvd + part_offset p, fps = tb, filename = filename b,
                custom_attrib = []\<rparr>) lm"
  by (induction lm arbitrary: po ps pd) (auto simp: Let_def)

lemma split_loud_parts_last:
  "lm \<noteq> [] \<Longrightarrow> D \<le> part_offset (last lm) + dur (last lm) \<Longrightarrow>
   \<not> is_silent (last (split_loud_parts b tb D pvd po ps pd lm)) \<and>
   start (last (split_loud_parts b tb D pvd po ps pd lm)) = part_offset (last lm) \<and>
   num_frames (last (split_loud_parts b tb D pvd po ps pd lm)) = dur (last lm)"
proof (induction lm arbitrary: po ps pd)
  case Nil then show ?case by simp
next
  case (Cons p lm)
  show ?case
  proof (cases "lm = []")
    case True
    with Cons.prems show ?thesis by (simp add: Let_def is_silent_def)
  next
    case False
    then have ne: "split_loud_parts b tb D pvd po' ps' pd' lm \<noteq> []" for po' ps' pd'
      by (cases lm) (simp_all add: Let_def)
    from False Cons.prems have "D \<le> part_offset (last lm) + dur (last lm)" by simp
    from Cons.IH [OF False this] False ne show ?thesis
      by (simp add: Let_def)
  qed
qed

lemma split_loud_parts_positive:
  "\<forall>p\<in>set lm. 0 < dur p \<Longrightarrow> c \<in> set (split_loud_parts b tb D pvd po ps pd lm) \<Longrightarrow>
   0 < num_frames c"
  by (induction lm arbitrary: po ps pd) (auto simp: Let_def split: if_splits)

section \<open>The silent tag (claim C7)\<close>

text \<open>
  C7. With every emitted sub-clip recorded together with the call site that emitted it
  (the recording changes nothing in the clips), a sub-clip carries the silent tag if and
  only if it was emitted for a gap, that is by the call before a loud part or by the call
  after the last one; a sub-clip emitted for a loud-map interval never carries it. This
  holds for every loud map and every state of the loop variables.
\<close>

theorem silent_tag_iff_gap:
  "map snd (split_loud_parts_sites b tb D pvd po ps pd lm) =
     split_loud_parts b tb D pvd po ps pd lm \<and>
   (\<forall>s c. (s, c) \<in> set (split_loud_parts_sites b tb D pvd po ps pd lm) \<longrightarrow>
      (is_silent c \<longleftrightarrow> s = Silent_part \<or> s = Last_silent_part))"
proof -
  have "is_silent c \<longleftrightarrow> s = Silent_part \<or> s = Last_silent_part"
    if "(s, c) \<in> set (split_loud_parts_sites b tb D pvd po ps pd lm)" for s c
    using split_loud_parts_sites_silent [OF that] by (cases s) simp_all
  then show ?thesis
    by (simp add: split_loud_parts_sites_snd)
qed

theorem silent_tag_iff_gap_witness:
  "map (\<lambda>x. (fst x, is_silent (snd x)))
     (split_loud_parts_sites one_asset_clip ''30'' 100 0 0 0 0 one_asset_map) =
     [(Silent_part, True), (Loud_part, False), (Silent_part, True), (Loud_part, False),
      (Last_silent_part, True)] \<and>
   map snd (split_loud_parts_sites one_asset_clip ''30'' 100 0 0 0 0 one_asset_map) =
     asset_clips one_asset_clip ''30'' 0 one_asset_map"
proof -
  have "split_loud_parts_sites one_asset_clip ''30'' 100 0 0 0 0 one_asset_map =
     [(Silent_part, \<lparr>video_ref = ''r1'', num_frames = 10, start = 0, offset = 0, fps = ''30'',
       filename = ''talk.mp4'', custom_attrib = [(''ave_silent'', ''true'')]\<rparr>),
      (Loud_part, \<lparr>video_ref = ''r1'', num_frames = 20, start = 10, offset = 10, fps = ''30'',
       filename = ''talk.mp4'', custom_attrib = []\<rparr>),
      (Silent_part, \<lparr>video_ref = ''r1'', num_frames = 20, start = 30, offset = 30, fps = ''30'',
       filename = ''talk.mp4'', custom_attrib = [(''ave_silent'', ''true'')]\<rparr>),
      (Loud_part, \<lparr>video_ref = ''r1'', num_frames = 10, start = 50, offset = 50, fps = ''30'',
       filename = ''talk.mp4'', custom_attrib = []\<rparr>),
      (Last_silent_part, \<lparr>video_ref = ''r1'', num_frames = 40, start = 60, offset = 60, fps = ''30'',
       filename = ''talk.mp4'', custom_attrib = [(''ave_silent'', ''true'')]\<rparr>)]"
    by (simp add: one_asset_clip_def base_clip_def one_asset_map_def Let_def)
  with silent_tag_iff_gap [of one_asset_clip "''30''" 100 0 0 0 0 one_asset_map]
  show ?thesis
    by (simp add: is_silent_def one_asset_clips)
qed

section \<open>No zero-duration gap (claim C8)\<close>

text \<open>
  C8 as stated does not hold: a sub-clip of zero duration is emitted when the loud map
  itself holds an interval of zero duration, since the call for the loud part (line 153)
  has no guard. For an asset of 20 frames and the well-formed loud map \<open>[(10, 0)]\<close> the
  sub-clips are (0, 10, silent), (10, 0, loud), (10, 10, silent): the second one has no
  frame.
\<close>

theorem zero_duration_loud_clip_counterexample:
  "well_formed_from 0 (num_frames (base_clip ''r1'' ''talk.mp4'' 20 0))
     [\<lparr>part_offset = 10, dur = 0\<rparr>] \<and>
   map (\<lambda>c. (start c, num_frames c, is_silent c))
     (asset_clips (base_clip ''r1'' ''talk.mp4'' 20 0) ''30'' 0 [\<lparr>part_offset = 10, dur = 0\<rparr>]) =
     [(0, 10, True), (10, 0, False), (10, 10, True)] \<and>
   num_frames
     (asset_clips (base_clip ''r1'' ''talk.mp4'' 20 0) ''30'' 0 [\<lparr>part_offset = 10, dur = 0\<rparr>] ! 1) = 0"
  by (simp add: asset_clips_def base_clip_def is_silent_def Let_def)

text \<open>
  C8, amended. Zero-duration silent sub-clips are never emitted: a silent sub-clip always
  has a positive duration, whereas a loud sub-clip has the duration that the map gives its
  interval, so that when all loud intervals have a positive duration so has every emitted
  sub-clip. A loud interval that starts exactly at the source cursor (\<open>ps + pd\<close>) is emitted
  with no silent sub-clip before it; in particular, when the first interval starts at 0 the
  first sub-clip of the asset is that loud interval. When the last interval ends exactly at
  the asset's duration, the last sub-clip is that loud interval, with no trailing silent
  one. Consequently, for a loud map that covers the asset from 0 to its duration with no
  gap, the emitted sub-clips are exactly the loud intervals of the map, none silent.
\<close>

theorem zero_gap_elision:
  "(\<forall>c\<in>set (split_loud_parts b tb D pvd po ps pd lm). is_silent c \<longrightarrow> 0 < num_frames c) \<and>
   ((\<forall>p\<in>set lm. 0 < dur p) \<longrightarrow>
      (\<forall>c\<in>set (split_loud_parts b tb D pvd po ps pd lm). 0 < num_frames c)) \<and>
   (part_offset p = ps + pd \<longrightarrow>
      split_loud_parts b tb D pvd po ps pd (p # rest) =
        \<lparr>video_ref = video_ref b, num_frames = dur p, start = part_offset p,
          offset = pvd + (po + pd), fps = tb, filename = filename b, custom_attrib = []\<rparr> #
        split_loud_parts b tb D pvd (po + pd) (part_offset p) (dur p) rest) \<and>
   (part_offset p = 0 \<longrightarrow>
      \<not> is_silent (hd (asset_clips b tb pvd (p # rest))) \<and>
      start (hd (asset_clips b tb pvd (p # rest))) = 0 \<and>
      num_frames (hd (asset_clips b tb pvd (p # rest))) = dur p) \<and>
   (lm \<noteq> [] \<and> part_offset (last lm) + dur (last lm) = num_frames b \<longrightarrow>
      \<not> is_silent (last (asset_clips b tb pvd lm)) \<and>
      start (last (asset_clips b tb pvd lm)) = part_offset (last lm) \<and>
      num_frames (last (asset_clips b tb pvd lm)) = dur (last lm)) \<and>
   (covers 0 (num_frames b) lm \<longrightarrow>
      asset_clips b tb pvd lm =
        map (\<lambda>p. \<lparr>video_ref = video_ref b, num_frames = dur p, start = part_offset p,
                   offset = pvd + part_offset p, fps = tb, filename = filename b,
                   custom_attrib = []\<rparr>) lm)"
proof -
  have 1: "\<forall>c\<in>set (split_loud_parts b tb D pvd po ps pd lm). is_silent c \<longrightarrow> 0 < num_frames c"
    using split_loud_parts_silent_positive by blast
  have 2: "(\<forall>p\<in>set lm. 0 < dur p) \<longrightarrow>
      (\<forall>c\<in>set (split_loud_parts b tb D pvd po ps pd lm). 0 < num_frames c)"
    using split_loud_parts_positive by blast
  have 3: "part_offset p = ps + pd \<longrightarrow>
      split_loud_parts b tb D pvd po ps pd (p # rest) =
        \<lparr>video_ref = video_ref b, num_frames = dur p, start = part_offset p,
          offset = pvd + (po + pd), fps = tb, filename = filename b, custom_attrib = []\<rparr> #
        split_loud_parts b tb D pvd (po + pd) (part_offset p) (dur p) rest"
    by (simp add: Let_def)
  have 4: "part_offset p = 0 \<longrightarrow>
      \<not> is_silent (hd (asset_clips b tb pvd (p # rest))) \<and>
      start (hd (asset_clips b tb pvd (p # rest))) = 0 \<and>
      num_frames (hd (asset_clips b tb pvd (p # rest))) = dur p"
    by (simp add: asset_clips_def Let_def is_silent_def)
  have 5: "lm \<noteq> [] \<and> part_offset (last lm) + dur (last lm) = num_frames b \<longrightarrow>
      \<not> is_silent (last (asset_clips b tb pvd lm)) \<and>
      start (last (asset_clips b tb pvd lm)) = part_offset (last lm) \<and>
      num_frames (last (asset_clips b tb pvd lm)) = dur (last lm)"
    using split_loud_parts_last [of lm "num_frames b" b tb pvd 0 0 0]
    by (simp add: asset_clips_def)
  have 6: "covers 0 (num_frames b) lm \<longrightarrow>
      asset_clips b tb pvd lm =
        map (\<lambda>p. \<lparr>video_ref = video_ref b, num_frames = dur p, start = part_offset p,
                   offset = pvd + part_offset p, fps = tb, filename = filename b,
                   custom_attrib = []\<rparr>) lm"
    using split_loud_parts_covers [of 0 0 0 "num_frames b" lm b tb pvd]
    by (simp add: asset_clips_def)
  from 1 2 3 4 5 6 show ?thesis by blast
qed

theorem zero_gap_elision_witness:
  "list_all (\<lambda>p. 0 < dur p) full_map \<and>
   part_offset (hd full_map) = 0 \<and>
   full_map \<noteq> [] \<and>
   part_offset (last full_map) + dur (last full_map) = num_frames one_asset_clip \<and>
   covers 0 (num_frames one_asset_clip) full_map \<and>
   asset_clips one_asset_clip ''30'' 0 full_map =
     [\<lparr>video_ref = ''r1'', num_frames = 60, start = 0, offset = 0, fps = ''30'',
       filename = ''talk.mp4'', custom_attrib = []\<rparr>,
      \<lparr>video_ref = ''r1'', num_frames = 40, start = 60, offset = 60, fps = ''30'',
       filename = ''talk.mp4'', custom_attrib = []\<rparr>] \<and>
   list_all (\<lambda>c. \<not> is_silent c \<and> 0 < num_frames c) (asset_clips one_asset_clip ''30'' 0 full_map)"
proof -
  have c: "covers 0 (num_frames one_asset_clip) full_map"
    by (simp add: full_map_def one_asset_clip_def base_clip_def)
  have e: "video_ref one_asset_clip = ''r1''" "filename one_asset_clip = ''talk.mp4''"
    "num_frames one_asset_clip = 100"
    by (simp_all add: one_asset_clip_def base_clip_def)
  from zero_gap_elision [of one_asset_clip "''30''" 100 0 0 0 0 full_map
      "\<lparr>part_offset = 0, dur = 60\<rparr>" "[\<lparr>part_offset = 60, dur = 40\<rparr>]"] c e
  show ?thesis
    by (simp add: full_map_def is_silent_def)
qed

section \<open>Malformed loud maps (claim C10)\<close>

text \<open>
  C10. For every loud map, whatever the order and overlap of its intervals, the step for
  one asset whose base clip and loud-map document are present returns without raising:
  \<open>cut_asset\<close> gives no error and appends the emitted sub-clips. These are finitely many (at
  most two per interval and one more); the loud ones are the intervals of the map in the
  order and multiplicity of the map (nothing is sorted, merged or dropped); a gap whose
  computed duration is not positive is skipped, so that every silent sub-clip has a positive
  duration. The witness is an unsorted map.
\<close>

theorem cut_asset_total:
  assumes "get_stored_video_asset (timeline self) r 0 = Some b"
      and "files (split0 CHR ''.'' (filename b)) = Some j"
      and "json_v j = lm # others"
  shows "(\<exists>rest. cut_asset files r self =
            (None, self\<lparr>timeline := (timeline self)\<lparr>clips := rest @
               asset_clips b (split0 CHR ''/'' (json_timebase j)) (cumulative_duration self) lm\<rparr>,
             cumulative_duration := cumulative_duration self + num_frames b\<rparr>)) \<and>
         length (asset_clips b tb pvd lm) \<le> 2 * length lm + 1 \<and>
         map (\<lambda>c. (start c, num_frames c)) (filter (\<lambda>c. \<not> is_silent c) (asset_clips b tb pvd lm)) =
           map (\<lambda>p. (part_offset p, dur p)) lm \<and>
         (\<forall>c\<in>set (asset_clips b tb pvd lm). is_silent c \<longrightarrow> 0 < num_frames c)"
proof -
  from assms(1) obtain rest where
    "remove_nth_where (\<lambda>c. video_ref c = r) 0 (clips (timeline self)) = Some rest"
    using nth_where_remove by (fastforce simp: get_stored_video_asset_def)
  from cut_asset_success [where files = files, OF assms this] have "\<exists>rest. cut_asset files r self =
            (None, self\<lparr>timeline := (timeline self)\<lparr>clips := rest @
               asset_clips b (split0 CHR ''/'' (json_timebase j)) (cumulative_duration self) lm\<rparr>,
             cumulative_duration := cumulative_duration self + num_frames b\<rparr>)"
    by blast
  moreover have "length (asset_clips b tb pvd lm) \<le> 2 * length lm + 1"
    unfolding asset_clips_def by (rule split_loud_parts_length)
  moreover have "map (\<lambda>c. (start c, num_frames c)) (filter (\<lambda>c. \<not> is_silent c) (asset_clips b tb pvd lm)) =
           map (\<lambda>p. (part_offset p, dur p)) lm"
    unfolding asset_clips_def by (rule split_loud_parts_loud)
  moreover have "\<forall>c\<in>set (asset_clips b tb pvd lm). is_silent c \<longrightarrow> 0 < num_frames c"
    unfolding asset_clips_def using split_loud_parts_silent_positive by blast
  ultimately show ?thesis by blast
qed

theorem cut_asset_total_witness:
  "get_stored_video_asset (timeline one_asset_self) ''r1'' 0 = Some one_asset_clip \<and>
   unsorted_files (split0 CHR ''.'' (filename one_asset_clip)) =
     Some \<lparr>json_timebase = ''30/1'', json_v = [unsorted_map]\<rparr> \<and>
   cut_asset unsorted_files ''r1'' one_asset_self =
     (None,
      \<lparr>timeline = \<lparr>video_assets_refs = [''r1''],
         clips =
           [\<lparr>video_ref = ''r1'', num_frames = 50, start = 0, offset = 0, fps = ''30'',
             filename = ''talk.mp4'', custom_attrib = [(''ave_silent'', ''true'')]\<rparr>,
            \<lparr>video_ref = ''r1'', num_frames = 10, start = 50, offset = 50, fps = ''30'',
             filename = ''talk.mp4'', custom_attrib = []\<rparr>,
            \<lparr>video_ref = ''r1'', num_frames = 20, start = 10, offset = 10, fps = ''30'',
             filename = ''talk.mp4'', custom_attrib = []\<rparr>,
            \<lparr>video_ref = ''r1'', num_frames = 70, start = 30, offset = 30, fps = ''30'',
             filename = ''talk.mp4'', custom_attrib = [(''ave_silent'', ''true'')]\<rparr>],
         sequence_duration = 100, sequence_duration_updates = 0\<rparr>,
       cumulative_duration = 100\<rparr>) \<and>
   map (\<lambda>c. (start c, num_frames c))
     (filter (\<lambda>c. \<not> is_silent c) (asset_clips one_asset_clip ''30'' 0 unsorted_map)) =
     [(50, 10), (10, 20)]"
proof -
  have g: "get_stored_video_asset (timeline one_asset_self) ''r1'' 0 = Some one_asset_clip"
    by (simp add: get_stored_video_asset_def one_asset_self_def one_asset_clip_def base_clip_def)
  have f: "unsorted_files (split0 CHR ''.'' (filename one_asset_clip)) =
      Some \<lparr>json_timebase = ''30/1'', json_v = [unsorted_map]\<rparr>"
    by (simp add: unsorted_files_def one_asset_clip_def base_clip_def split0_def)
  have v: "json_v \<lparr>json_timebase = ''30/1'', json_v = [unsorted_map]\<rparr> = unsorted_map # []"
    by simp
  have a: "asset_clips one_asset_clip ''30'' 0 unsorted_map =
           [\<lparr>video_ref = ''r1'', num_frames = 50, start = 0, offset = 0, fps = ''30'',
             filename = ''talk.mp4'', custom_attrib = [(''ave_silent'', ''true'')]\<rparr>,
            \<lparr>video_ref = ''r1'', num_frames = 10, start = 50, offset = 50, fps = ''30'',
             filename = ''talk.mp4'', custom_attrib = []\<rparr>,
            \<lparr>video_ref = ''r1'', num_frames = 20, start = 10, offset = 10, fps = ''30'',
             filename = ''talk.mp4'', custom_attrib = []\<rparr>,
            \<lparr>video_ref = ''r1'', num_frames = 70, start = 30, offset = 30, fps = ''30'',
             filename = ''talk.mp4'', custom_attrib = [(''ave_silent'', ''true'')]\<rparr>]"
    by (simp add: asset_clips_def one_asset_clip_def base_clip_def unsorted_map_def Let_def)
  have s: "split0 CHR ''/'' ''30/1'' = ''30''" by (simp add: split0_def)
  have c: "cumulative_duration one_asset_self = 0" by (simp add: one_asset_self_def)
  have e: "cut_asset unsorted_files ''r1'' one_asset_self =
     (None, one_asset_self\<lparr>timeline := (timeline one_asset_self)\<lparr>clips :=
               asset_clips one_asset_clip ''30'' 0 unsorted_map\<rparr>,
             cumulative_duration := 100\<rparr>)"
    by (simp add: cut_asset_def get_stored_video_asset_def one_asset_self_def one_asset_clip_def
        base_clip_def unsorted_files_def split0_def get_loud_map_def Let_def
        foldl_add_clip_to_timeline remove_stored_video_asset_def)
  have m: "map (\<lambda>p. (part_offset p, dur p)) unsorted_map = [(50, 10), (10, 20)]"
    by (simp add: unsorted_map_def)
  from cut_asset_total [where files = unsorted_files and tb = "''30''" and pvd = 0, OF g f v]
    g f e m
  show ?thesis
    by (simp add: a one_asset_self_def)
qed

section \<open>Lemmas on the total duration\<close>

lemma cut_asset_first:
  "files ''first'' = Some \<lparr>json_timebase = ''30/1'', json_v = [[]]\<rparr> \<Longrightarrow>
   cut_asset files ''r1'' two_assets_self = (None, after_first_asset)"
  by (simp add: cut_asset_def get_stored_video_asset_def two_assets_self_def two_assets_def
      base_clip_def split0_def get_loud_map_def Let_def asset_clips_def
      foldl_add_clip_to_timeline add_clip_to_timeline_def remove_stored_video_asset_def after_first_asset_def)

lemma cut_asset_None:
  assumes "cut_asset files r self = (None, self')"
  shows "\<exists>b j lm others rest.
           get_stored_video_asset (timeline self) r 0 = Some b \<and>
           files (split0 CHR ''.'' (filename b)) = Some j \<and>
           json_v j = lm # others \<and>
           clips (timeline self') =
             rest @ asset_clips b (split0 CHR ''/'' (json_timebase j)) (cumulative_duration self) lm \<and>
           cumulative_duration self' = cumulative_duration self + num_frames b"
proof -
  from assms obtain b where b: "get_stored_video_asset (timeline self) r 0 = Some b"
    by (cases "get_stored_video_asset (timeline self) r 0") (auto simp: cut_asset_def)
  from assms b obtain j where j: "files (split0 CHR ''.'' (filename b)) = Some j"
    by (cases "files (split0 CHR ''.'' (filename b))")
       (auto simp: cut_asset_def get_loud_map_def Let_def)
  from assms b j obtain lm others where v: "json_v j = lm # others"
    by (cases "json_v j") (auto simp: cut_asset_def get_loud_map_def Let_def)
  from b obtain rest where
    "remove_nth_where (\<lambda>c. video_ref c = r) 0 (clips (timeline self)) = Some rest"
    using nth_where_remove by (fastforce simp: get_stored_video_asset_def)
  from cut_asset_success [where files = files, OF b j v this] assms b j v
  show ?thesis by auto
qed

lemma cut_clips_count:
  "sequence_duration_updates (timeline (snd (cut_clips files self))) =
     sequence_duration_updates (timeline self) + (if fst (cut_clips files self) = None then 1 else 0)"
proof -
  obtain e s where r: "cut_refs files (video_assets_refs (timeline self)) self = (e, s)"
    by (cases "cut_refs files (video_assets_refs (timeline self)) self")
  from cut_refs_keeps [OF r] r show ?thesis
    by (cases e) (simp_all add: cut_clips_def update_sequence_duration_def)
qed

lemma cut_clips_duration:
  "sequence_duration (timeline (snd (cut_clips files self))) =
     (if fst (cut_clips files self) = None
      then sum_list (map num_frames (clips (timeline (snd (cut_clips files self)))))
      else sequence_duration (timeline self))"
proof -
  obtain e s where r: "cut_refs files (video_assets_refs (timeline self)) self = (e, s)"
    by (cases "cut_refs files (video_assets_refs (timeline self)) self")
  from cut_refs_keeps [OF r] r show ?thesis
    by (cases e) (simp_all add: cut_clips_def update_sequence_duration_def)
qed

section \<open>Recomputing the total duration (claim C3)\<close>

text \<open>
  C3 as stated does not hold. In the run over the two assets, the first asset is completely
  split and the total duration has not been recomputed at that point (no call of
  \<open>update_sequence_duration\<close> so far); the whole run over two assets makes one call, not two;
  and the base used for the second asset is 100, the running total
  \<^verbatim>\<open>cumulative_duration\<close>, whereas recomputing the total after the first asset would give
  180 (the base clip of the second asset is still on the sequence). The sub-clip of the
  second asset is placed at 100.
\<close>

theorem sequence_duration_once_per_asset_counterexample:
  "length (video_assets_refs (timeline two_assets_self)) = 2 \<and>
   cut_refs two_assets_files [''r1''] two_assets_self = (None, after_first_asset) \<and>
   sequence_duration_updates (timeline after_first_asset) = 0 \<and>
   sequence_duration_updates (timeline (snd (cut_clips two_assets_files two_assets_self))) = 1 \<and>
   cumulative_duration after_first_asset = 100 \<and>
   sequence_duration (update_sequence_duration (timeline after_first_asset)) = 180 \<and>
   map offset (clips (timeline (snd (cut_clips two_assets_files two_assets_self)))) = [0, 100]"
proof -
  have f: "two_assets_files ''first'' = Some \<lparr>json_timebase = ''30/1'', json_v = [[]]\<rparr>"
    by (simp add: two_assets_files_def two_assets_def)
  have 1: "cut_asset two_assets_files ''r1'' two_assets_self = (None, after_first_asset)"
    by (rule cut_asset_first [where files = two_assets_files, OF f])
  have 2: "cut_asset two_assets_files ''r2'' after_first_asset =
     (None, after_first_asset\<lparr>timeline := (timeline after_first_asset)\<lparr>clips :=
        [\<lparr>video_ref = ''r1'', num_frames = 100, start = 0, offset = 0, fps = ''30'',
            filename = ''first.mp4'', custom_attrib = [(''ave_silent'', ''true'')]\<rparr>,
         \<lparr>video_ref = ''r2'', num_frames = 80, start = 0, offset = 100, fps = ''30'',
            filename = ''second.mp4'', custom_attrib = []\<rparr>]\<rparr>, cumulative_duration := 180\<rparr>)"
    by (simp add: cut_asset_def get_stored_video_asset_def after_first_asset_def two_assets_def
      two_assets_files_def base_clip_def split0_def get_loud_map_def Let_def asset_clips_def
      foldl_add_clip_to_timeline add_clip_to_timeline_def remove_stored_video_asset_def)
  have 3: "video_assets_refs (timeline two_assets_self) = [''r1'', ''r2'']"
    by (simp add: two_assets_self_def)
  show ?thesis
    using 1 2 3
    by (simp add: cut_clips_def update_sequence_duration_def)
       (simp add: after_first_asset_def base_clip_def)
qed

text \<open>
  C3, amended. The sequence total duration is recomputed, by summing the durations of all
  clips on the sequence, exactly once per run of \<open>cut_clips\<close>, after the loop over the
  assets, and not at all when the run raises; no step of the loop changes the cached total
  or recomputes it. The base used for an asset's placement offsets is the running total
  \<^verbatim>\<open>cumulative_duration\<close>, kept by incremental arithmetic: a completed step for an asset
  with base clip \<open>b\<close> places the sub-clips with the current value as base and then adds
  \<open>num_frames b\<close> to it.
\<close>

theorem sequence_duration_once_per_run:
  "sequence_duration_updates (timeline (snd (cut_clips files self))) =
     sequence_duration_updates (timeline self) + (if fst (cut_clips files self) = None then 1 else 0) \<and>
   sequence_duration (timeline (snd (cut_clips files self))) =
     (if fst (cut_clips files self) = None
      then sum_list (map num_frames (clips (timeline (snd (cut_clips files self)))))
      else sequence_duration (timeline self)) \<and>
   (cut_refs files rs self = (e, self') \<longrightarrow>
      sequence_duration (timeline self') = sequence_duration (timeline self) \<and>
      sequence_duration_updates (timeline self') = sequence_duration_updates (timeline self)) \<and>
   (cut_asset files r self = (None, self') \<longrightarrow>
      (\<exists>b j lm others rest.
           get_stored_video_asset (timeline self) r 0 = Some b \<and>
           files (split0 CHR ''.'' (filename b)) = Some j \<and>
           json_v j = lm # others \<and>
           clips (timeline self') =
             rest @ asset_clips b (split0 CHR ''/'' (json_timebase j)) (cumulative_duration self) lm \<and>
           cumulative_duration self' = cumulative_duration self + num_frames b))"
  using cut_clips_count [of files self] cut_clips_duration [of files self]
    cut_refs_keeps [of files rs self e self'] cut_asset_None [of files r self self']
  by blast

theorem sequence_duration_once_per_run_witness:
  "cut_refs two_assets_files [''r1''] two_assets_self = (None, after_first_asset) \<and>
   cut_asset two_assets_files ''r1'' two_assets_self = (None, after_first_asset) \<and>
   fst (cut_clips two_assets_files two_assets_self) = None \<and>
   sequence_duration_updates (timeline (snd (cut_clips two_assets_files two_assets_self))) = 1 \<and>
   sequence_duration (timeline (snd (cut_clips two_assets_files two_assets_self))) = 180 \<and>
   sequence_duration_updates (timeline after_first_asset) =
     sequence_duration_updates (timeline two_assets_self) \<and>
   cumulative_duration after_first_asset = cumulative_duration two_assets_self + 100"
proof -
  have f: "two_assets_files ''first'' = Some \<lparr>json_timebase = ''30/1'', json_v = [[]]\<rparr>"
    by (simp add: two_assets_files_def two_assets_def)
  have 1: "cut_asset two_assets_files ''r1'' two_assets_self = (None, after_first_asset)"
    by (rule cut_asset_first [where files = two_assets_files, OF f])
  then have 2: "cut_refs two_assets_files [''r1''] two_assets_self = (None, after_first_asset)"
    by simp
  have 3: "cut_clips two_assets_files two_assets_self =
     (None, after_first_asset\<lparr>timeline := update_sequence_duration ((timeline after_first_asset)\<lparr>clips :=
        [\<lparr>video_ref = ''r1'', num_frames = 100, start = 0, offset = 0, fps = ''30'',
            filename = ''first.mp4'', custom_attrib = [(''ave_silent'', ''true'')]\<rparr>,
         \<lparr>video_ref = ''r2'', num_frames = 80, start = 0, offset = 100, fps = ''30'',
            filename = ''second.mp4'', custom_attrib = []\<rparr>]\<rparr>), cumulative_duration := 180\<rparr>)"
  proof -
    have r: "video_assets_refs (timeline two_assets_self) = [''r1'', ''r2'']"
      by (simp add: two_assets_self_def)
    have "cut_asset two_assets_files ''r2'' after_first_asset =
     (None, after_first_asset\<lparr>timeline := (timeline after_first_asset)\<lparr>clips :=
        [\<lparr>video_ref = ''r1'', num_frames = 100, start = 0, offset = 0, fps = ''30'',
            filename = ''first.mp4'', custom_attrib = [(''ave_silent'', ''true'')]\<rparr>,
         \<lparr>video_ref = ''r2'', num_frames = 80, start = 0, offset = 100, fps = ''30'',
            filename = ''second.mp4'', custom_attrib = []\<rparr>]\<rparr>, cumulative_duration := 180\<rparr>)"
      by (simp add: cut_asset_def get_stored_video_asset_def after_first_asset_def two_assets_def
        two_assets_files_def base_clip_def split0_def get_loud_map_def Let_def asset_clips_def
        foldl_add_clip_to_timeline add_clip_to_timeline_def remove_stored_video_asset_def)
    with 1 r show ?thesis
      by (simp add: cut_clips_def)
  qed
  from sequence_duration_once_per_run [of two_assets_files two_assets_self "[''r1'']" None
      after_first_asset "''r1''"] 1 2 3
  show ?thesis
    by (simp add: update_sequence_duration_def after_first_asset_def two_assets_self_def)
qed

section \<open>A loud map that cannot be loaded (claim C4)\<close>

text \<open>
  C4. When the run reaches an asset whose base clip is present but whose loud-map file is
  absent or unreadable, the step for this asset raises and leaves the object exactly as it
  was before the step: no sub-clip is added and the base clip is still there. \<open>cut_clips\<close>
  ends with this error in the state reached after the assets before it, and the sequence
  total duration is not recomputed: it and the number of recomputations are what they were
  before the run.
\<close>

theorem loud_map_missing_no_mutation:
  assumes "video_assets_refs (timeline self) = rs1 @ r # rs2"
      and "cut_refs files rs1 self = (None, s1)"
      and "get_stored_video_asset (timeline s1) r 0 = Some b"
      and "files (split0 CHR ''.'' (filename b)) = None"
  shows "cut_asset files r s1 = (Some FileNotFoundError, s1) \<and>
         cut_clips files self = (Some FileNotFoundError, s1) \<and>
         get_stored_video_asset (timeline (snd (cut_clips files self))) r 0 = Some b \<and>
         sequence_duration (timeline s1) = sequence_duration (timeline self) \<and>
         sequence_duration_updates (timeline s1) = sequence_duration_updates (timeline self)"
proof -
  have a: "cut_asset files r s1 = (Some FileNotFoundError, s1)"
    using assms(3,4) by (simp add: cut_asset_def get_loud_map_def)
  then have "cut_refs files (rs1 @ r # rs2) self = (Some FileNotFoundError, s1)"
    using assms(2) by (simp add: cut_refs_append)
  then have "cut_clips files self = (Some FileNotFoundError, s1)"
    using assms(1) by (simp add: cut_clips_def)
  with a cut_refs_keeps [OF assms(2)] assms(3) show ?thesis by simp
qed

theorem loud_map_missing_no_mutation_witness:
  "video_assets_refs (timeline two_assets_self) = [''r1''] @ ''r2'' # [] \<and>
   cut_refs second_missing_files [''r1''] two_assets_self = (None, after_first_asset) \<and>
   get_stored_video_asset (timeline after_first_asset) ''r2'' 0 =
     Some (base_clip ''r2'' ''second.mp4'' 80 100) \<and>
   second_missing_files (split0 CHR ''.'' (filename (base_clip ''r2'' ''second.mp4'' 80 100))) = None \<and>
   cut_asset second_missing_files ''r2'' after_first_asset =
     (Some FileNotFoundError, after_first_asset) \<and>
   cut_clips second_missing_files two_assets_self = (Some FileNotFoundError, after_first_asset) \<and>
   sequence_duration_updates (timeline after_first_asset) = 0"
proof -
  have f: "second_missing_files ''first'' = Some \<lparr>json_timebase = ''30/1'', json_v = [[]]\<rparr>"
    by (simp add: second_missing_files_def two_assets_def)
  have 1: "video_assets_refs (timeline two_assets_self) = [''r1''] @ ''r2'' # []"
    by (simp add: two_assets_self_def)
  have 2: "cut_refs second_missing_files [''r1''] two_assets_self = (None, after_first_asset)"
    using cut_asset_first [where files = second_missing_files, OF f] by simp
  have 3: "get_stored_video_asset (timeline after_first_asset) ''r2'' 0 =
     Some (base_clip ''r2'' ''second.mp4'' 80 100)"
    by (simp add: get_stored_video_asset_def after_first_asset_def base_clip_def)
  have 4: "second_missing_files (split0 CHR ''.'' (filename (base_clip ''r2'' ''second.mp4'' 80 100))) = None"
    by (simp add: second_missing_files_def base_clip_def split0_def)
  from loud_map_missing_no_mutation [where files = second_missing_files, OF 1 2 3 4] 1 2 3 4
  show ?thesis
    by (simp add: after_first_asset_def)
qed

section \<open>The remove-silence step of the orchestrator (claim C5)\<close>

text \<open>
  A \<^verbatim>\<open>RemoveSilence\<close> object has no attribute \<^verbatim>\<open>remove_silence_from_videos\<close>, so the call
  raises before anything is done to the object. Whenever \<^verbatim>\<open>Orchestrator.remove_silence\<close>
  is reached without \<^verbatim>\<open>--just-subtitles\<close>, with the input folder set, it builds the object
  and raises \<^verbatim>\<open>AttributeError\<close>; the timeline is untouched. A run with
  \<^verbatim>\<open>--skip-preprocess\<close> alone ends so.
\<close>

lemma remove_silence_from_videos_missing:
  "''remove_silence_from_videos'' \<notin> set RemoveSilence_attributes \<and>
   ''cut_clips'' \<in> set RemoveSilence_attributes \<and>
   ''remove_silence'' \<in> set RemoveSilence_attributes"
  by (simp add: RemoveSilence_attributes_def)

lemma call_missing_method:
  "call_RemoveSilence other files ''remove_silence_from_videos'' obj =
     (Some (AttributeError ''RemoveSilence'' ''remove_silence_from_videos''), obj)"
  using remove_silence_from_videos_missing by (simp add: call_RemoveSilence_def)

lemma Orchestrator_remove_silence_raises:
  assumes "\<not> just_subtitles (args self)" and "input_folder self = Some f"
  shows "Orchestrator_remove_silence ext files self =
     (Some (AttributeError ''RemoveSilence'' ''remove_silence_from_videos''),
      self\<lparr>remove_silence_feat :=
        Some \<lparr>rs_timeline = orch_timeline self, videos_folder = f, rs_cumulative_duration = 0\<rparr>\<rparr>)"
  using assms
  by (simp add: Orchestrator_remove_silence_def RemoveSilence_init_def call_missing_method)

lemma main_skip_preprocess:
  "main externals_ok two_assets_files (no_flags\<lparr>skip_preprocess := True\<rparr>) =
     (Some (AttributeError ''RemoveSilence'' ''remove_silence_from_videos''),
      \<lparr>args = no_flags\<lparr>skip_preprocess := True\<rparr>, input_folder = Some ''videos'',
       input_video = None, preprocess_feat = None,
       remove_silence_feat =
         Some \<lparr>rs_timeline = Some (timeline two_assets_self), videos_folder = ''videos'',
           rs_cumulative_duration = 0\<rparr>,
       orch_timeline = Some (timeline two_assets_self)\<rparr>)"
  by (simp add: main_def Orchestrator_init_def preprocess_videos_def determine_input_folder_def
      create_timeline_def concatenate_files_def no_flags_def externals_ok_def
      Orchestrator_remove_silence_def RemoveSilence_init_def call_missing_method)

text \<open>
  C5. The run with no flag at all does not reach the remove-silence step:
  \<^verbatim>\<open>preprocess_videos\<close> calls \<^verbatim>\<open>self.preprocess_feat.preprocess_all_videos_in_folder()\<close>
  while \<^verbatim>\<open>preprocess_feat\<close> is still \<^verbatim>\<open>None\<close> (only the branch for
  \<^verbatim>\<open>--already-preprocessed\<close> assigns it), so \<^verbatim>\<open>main\<close> raises there, whatever the external
  code does, and no \<^verbatim>\<open>RemoveSilence\<close> object is ever built.
\<close>

theorem main_no_flags_raises_in_preprocess_videos:
  "\<not> just_subtitles no_flags \<and>
   main ext files no_flags =
     (Some (AttributeError ''NoneType'' ''preprocess_all_videos_in_folder''),
      Orchestrator_init no_flags) \<and>
   remove_silence_feat (snd (main ext files no_flags)) = None"
  by (simp add: main_def Orchestrator_init_def preprocess_videos_def no_flags_def)

end
